theory Spec2Isabelle
  imports Main "HOL-Library.Sublist"
begin

section \<open>Values handled by the client\<close>

text \<open>
  The value that \<^verbatim>\<open>response.json()\<close> hands back: Python's \<^verbatim>\<open>None\<close>, \<^verbatim>\<open>bool\<close>,
  \<^verbatim>\<open>int\<close>, \<^verbatim>\<open>float\<close>, \<^verbatim>\<open>str\<close>, \<^verbatim>\<open>list\<close> and \<^verbatim>\<open>dict\<close>. A float is kept as its
  literal, the client never looks into it. A dict is an association list; the keys of a
  parsed object are distinct. \<open>JNull\<close> is also the \<^verbatim>\<open>None\<close> that \<^verbatim>\<open>_call_api\<close> puts in
  the data position of its pair when the call failed.
\<close>

datatype json =
    JNull
  | JBool bool
  | JInt int
  | JFloat string
  | JStr string
  | JArr "json list"
  | JObj "(string \<times> json) list"

text \<open>
  The exceptions that occur: the plain \<^verbatim>\<open>Exception(message)\<close> that the public methods
  raise; the three built-in errors that subscripting, \<^verbatim>\<open>len\<close> and attribute access raise;
  whatever subclass of \<^verbatim>\<open>Exception\<close> the HTTP library raises (named by its class), where
  \<open>FalsyError\<close> stands for an instance whose class defines \<^verbatim>\<open>__bool__\<close> or \<^verbatim>\<open>__len__\<close>
  so that the instance tests false; and \<^verbatim>\<open>KeyboardInterrupt\<close> and \<^verbatim>\<open>SystemExit\<close>, which
  derive from \<^verbatim>\<open>BaseException\<close> and not from \<^verbatim>\<open>Exception\<close>.
\<close>

datatype pyexc =
    Exception string
  | KeyError string
  | TypeError
  | AttributeError
  | LibraryError string
  | FalsyError string
  | KeyboardInterrupt
  | SystemExit

text \<open>\<^verbatim>\<open>isinstance(e, Exception)\<close>.\<close>

fun is_Exception :: "pyexc \<Rightarrow> bool" where
  "is_Exception KeyboardInterrupt = False"
| "is_Exception SystemExit = False"
| "is_Exception _ = True"

text \<open>
  \<^verbatim>\<open>bool(e)\<close> for an exception instance: true, since \<^verbatim>\<open>BaseException\<close> defines neither
  \<^verbatim>\<open>__bool__\<close> nor \<^verbatim>\<open>__len__\<close>, unless the class of the instance does.
\<close>

fun exception_bool :: "pyexc \<Rightarrow> bool" where
  "exception_bool (FalsyError name) = False"
| "exception_bool _ = True"

text \<open>
  A response object is characterised by what its \<^verbatim>\<open>.json()\<close> does: raise, or return the
  parsed body.
\<close>

datatype response = Response (json_result: "pyexc + json")

section \<open>The network\<close>

text \<open>
  \<^verbatim>\<open>requests.get\<close> is the outside world. A transport takes its own state and a URL and
  either raises or answers, and moves to a new state. The state of the network, as the
  client sees it, is the list of the URLs requested so far (oldest first) together with
  the state of the transport.
\<close>

type_synonym 'w transport = "'w \<Rightarrow> string \<Rightarrow> (pyexc + response) \<times> 'w"

type_synonym 'w net = "string list \<times> 'w"

text \<open>A method body: it runs in a network state and raises (\<open>Inl\<close>) or returns (\<open>Inr\<close>).\<close>

type_synonym ('a, 'w) prog = "'w net \<Rightarrow> (pyexc + 'a) \<times> 'w net"

definition returns :: "'a \<Rightarrow> ('a, 'w) prog" where
  "returns x = (\<lambda>n. (Inr x, n))"

definition raises :: "pyexc \<Rightarrow> ('a, 'w) prog" where
  "raises e = (\<lambda>n. (Inl e, n))"

definition lift :: "pyexc + 'a \<Rightarrow> ('a, 'w) prog" where
  "lift r = (\<lambda>n. (r, n))"

definition then_do :: "('a, 'w) prog \<Rightarrow> ('a \<Rightarrow> ('b, 'w) prog) \<Rightarrow> ('b, 'w) prog" where
  "then_do p f = (\<lambda>n. case p n of (Inl e, n') \<Rightarrow> (Inl e, n') | (Inr x, n') \<Rightarrow> f x n')"

text \<open>
  \<^verbatim>\<open>try: p  except Exception as e: h(e)\<close>. The handler takes the instances of
  \<^verbatim>\<open>Exception\<close>; any other exception leaves the statement.
\<close>

definition try_except :: "('a, 'w) prog \<Rightarrow> (pyexc \<Rightarrow> ('a, 'w) prog) \<Rightarrow> ('a, 'w) prog" where
  "try_except p h =
     (\<lambda>n. case p n of
             (Inl e, n') \<Rightarrow> if is_Exception e then h e n' else (Inl e, n')
           | (Inr x, n') \<Rightarrow> (Inr x, n'))"

definition requests_get :: "'w transport \<Rightarrow> string \<Rightarrow> (response, 'w) prog" where
  "requests_get tr url = (\<lambda>(sent, w). case tr w url of (r, w') \<Rightarrow> (r, (sent @ [url], w')))"

section \<open>Python built-ins used by the client\<close>

text \<open>
  \<^verbatim>\<open>str.upper()\<close> on ticker symbols: strings are ASCII here, where \<^verbatim>\<open>upper\<close> maps
  \<^verbatim>\<open>a\<close>..\<^verbatim>\<open>z\<close> to \<^verbatim>\<open>A\<close>..\<^verbatim>\<open>Z\<close> and leaves every other character alone.
\<close>

definition upper_char :: "char \<Rightarrow> char" where
  "upper_char ch =
     (let k = (of_char ch :: nat) in if 97 \<le> k \<and> k \<le> 122 then char_of (k - 32) else ch)"

definition upper :: "string \<Rightarrow> string" where
  "upper s = map upper_char s"

text \<open>
  \<^verbatim>\<open>data[key]\<close> with a string key: a dict looks the key up and raises \<^verbatim>\<open>KeyError\<close> when
  it is absent; a list or a string wants an integer index, and \<^verbatim>\<open>None\<close>, a bool and a
  number cannot be subscripted: all of these raise \<^verbatim>\<open>TypeError\<close>.
\<close>

fun subscript :: "json \<Rightarrow> string \<Rightarrow> pyexc + json" where
  "subscript (JObj kvs) key =
     (case map_of kvs key of None \<Rightarrow> Inl (KeyError key) | Some v \<Rightarrow> Inr v)"
| "subscript _ key = Inl TypeError"

text \<open>\<^verbatim>\<open>len(v)\<close>: defined on a list, a string and a dict, \<^verbatim>\<open>TypeError\<close> otherwise.\<close>

fun py_len :: "json \<Rightarrow> pyexc + nat" where
  "py_len (JArr xs) = Inr (length xs)"
| "py_len (JStr s) = Inr (length s)"
| "py_len (JObj kvs) = Inr (length kvs)"
| "py_len _ = Inl TypeError"

text \<open>
  \<^verbatim>\<open>v.json()\<close> on a parsed value: none of \<^verbatim>\<open>dict\<close>, \<^verbatim>\<open>list\<close>, \<^verbatim>\<open>str\<close>, \<^verbatim>\<open>int\<close>,
  \<^verbatim>\<open>float\<close>, \<^verbatim>\<open>bool\<close> and \<^verbatim>\<open>NoneType\<close> has an attribute \<^verbatim>\<open>json\<close>.
\<close>

fun json_attr :: "json \<Rightarrow> pyexc + json" where
  "json_attr _ = Inl AttributeError"

section \<open>The class \<^verbatim>\<open>FinancialModelingPrep\<close>\<close>

text \<open>
  An instance has the attribute \<^verbatim>\<open>base_url\<close>, and an identity: \<open>obj_repr\<close> is what
  \<^verbatim>\<open>repr(self)\<close> prints, built by Python from the module path of the class and the
  address of the object.
\<close>

record client =
  base_url :: string
  obj_repr :: string

definition init :: "string \<Rightarrow> client" where
  "init r = \<lparr>base_url = ''financialmodelingprep.com'', obj_repr = r\<rparr>"

text \<open>What \<^verbatim>\<open>self._version()\<close> returns when it is called.\<close>

definition version :: "client \<Rightarrow> string" where
  "version self = base_url self @ ''/api/v3/''"

text \<open>
  \<^verbatim>\<open>_version\<close> and \<^verbatim>\<open>_financials\<close> are plain methods (no \<^verbatim>\<open>@property\<close>), and the
  f-strings name them without calling them: \<^verbatim>\<open>f"{self._version}..."\<close> formats the bound
  method object, which prints as below.
\<close>

definition bound_method :: "string \<Rightarrow> client \<Rightarrow> string" where
  "bound_method name self =
     ''<bound method FinancialModelingPrep.'' @ name @ '' of '' @ obj_repr self @ ''>''"

definition quote_url :: "client \<Rightarrow> string \<Rightarrow> string" where
  "quote_url self symbol = bound_method ''_version'' self @ ''quote/'' @ upper symbol"

definition income_statement_url :: "client \<Rightarrow> string \<Rightarrow> string" where
  "income_statement_url self symbol =
     bound_method ''_financials'' self @ ''income-statement/'' @ upper symbol"

definition balance_sheet_url :: "client \<Rightarrow> string \<Rightarrow> string" where
  "balance_sheet_url self symbol =
     bound_method ''_financials'' self @ ''balance-sheet-statement/'' @ upper symbol"

definition cash_flow_statement_url :: "client \<Rightarrow> string \<Rightarrow> string" where
  "cash_flow_statement_url self symbol =
     bound_method ''_financials'' self @ ''cash-flow-statement/'' @ upper symbol"

text \<open>
  \<^verbatim>\<open>_call_api\<close>: the pair \<^verbatim>\<open>(response.json(), None)\<close>, or \<^verbatim>\<open>(None, e)\<close> from the handler.
\<close>

definition call_api :: "'w transport \<Rightarrow> string \<Rightarrow> (json \<times> pyexc option, 'w) prog" where
  "call_api tr url =
     try_except
       (then_do (requests_get tr url) (\<lambda>response.
        then_do (lift (json_result response)) (\<lambda>body.
        returns (body, None))))
       (\<lambda>e. returns (JNull, Some e))"

definition get_income_statement ::
  "client \<Rightarrow> 'w transport \<Rightarrow> string \<Rightarrow> (json \<times> pyexc option, 'w) prog" where
  "get_income_statement self tr symbol = call_api tr (income_statement_url self symbol)"

definition get_balance_sheet ::
  "client \<Rightarrow> 'w transport \<Rightarrow> string \<Rightarrow> (json \<times> pyexc option, 'w) prog" where
  "get_balance_sheet self tr symbol = call_api tr (balance_sheet_url self symbol)"

definition get_cash_flow_statement ::
  "client \<Rightarrow> 'w transport \<Rightarrow> string \<Rightarrow> (json \<times> pyexc option, 'w) prog" where
  "get_cash_flow_statement self tr symbol = call_api tr (cash_flow_statement_url self symbol)"

text \<open>
  \<^verbatim>\<open>if err:\<close> tests the truth value of \<^verbatim>\<open>err\<close>, which is \<^verbatim>\<open>None\<close> (false) or an
  exception instance.
\<close>

fun truthy :: "pyexc option \<Rightarrow> bool" where
  "truthy None = False"
| "truthy (Some e) = exception_bool e"

text \<open>The messages of the exceptions that the public methods raise, as the f-strings build them.\<close>

definition quote_failed :: "string \<Rightarrow> string" where
  "quote_failed symbol = ''Failed to fetch quote data for ticker symbol '' @ symbol @ ''.''"

definition income_failed :: "string \<Rightarrow> string" where
  "income_failed symbol =
     ''Failed to fetch income statement for ticker symbol '' @ symbol @ ''.''"

definition income_short :: "string \<Rightarrow> string" where
  "income_short symbol =
     ''Not enough data found in the income statement for ticker symbol '' @ symbol @ ''.''"

definition balance_failed :: "string \<Rightarrow> string" where
  "balance_failed symbol = ''Failed to fetch balance sheet for ticker symbol '' @ symbol"

definition balance_short :: "string \<Rightarrow> string" where
  "balance_short symbol =
     ''Not enough data found in the balance sheet for ticker symbol '' @ symbol @ ''.''"

definition cash_flow_failed :: "string \<Rightarrow> string" where
  "cash_flow_failed symbol = ''Failed to fetch cash flow statement for ticker symbol '' @ symbol"

definition cash_flow_short :: "string \<Rightarrow> string" where
  "cash_flow_short symbol =
     ''Not enough data found in the cash flow statement for ticker symbol '' @ symbol @ ''.''"

definition get_quotes :: "client \<Rightarrow> 'w transport \<Rightarrow> string \<Rightarrow> (json, 'w) prog" where
  "get_quotes self tr symbol =
     then_do (call_api tr (quote_url self symbol)) (\<lambda>(quote_response, err).
     if truthy err then raises (Exception (quote_failed symbol))
     else lift (json_attr quote_response))"

text \<open>The local function of \<^verbatim>\<open>get_financials\<close>: \<^verbatim>\<open>len(data["financials"]) >= minimum_years\<close>.\<close>

definition has_more_than_minimum :: "int \<Rightarrow> json \<Rightarrow> pyexc + bool" where
  "has_more_than_minimum minimum_years data =
     (case subscript data ''financials'' of
        Inl e \<Rightarrow> Inl e
      | Inr v \<Rightarrow> (case py_len v of Inl e \<Rightarrow> Inl e | Inr k \<Rightarrow> Inr (minimum_years \<le> int k)))"

definition get_financials ::
  "client \<Rightarrow> 'w transport \<Rightarrow> string \<Rightarrow> int \<Rightarrow> (string \<rightharpoonup> json, 'w) prog" where
  "get_financials self tr symbol minimum_years =
     (let financials = Map.empty in
      then_do (get_income_statement self tr symbol) (\<lambda>(income_statement_response, income_err).
      if truthy income_err then raises (Exception (income_failed symbol)) else
      then_do (lift (has_more_than_minimum minimum_years income_statement_response)) (\<lambda>enough.
      if \<not> enough then raises (Exception (income_short symbol)) else
      let financials = financials(''income_statement'' \<mapsto> income_statement_response) in
      then_do (get_balance_sheet self tr symbol) (\<lambda>(balance_sheet_response, balance_err).
      if truthy balance_err then raises (Exception (balance_failed symbol)) else
      then_do (lift (has_more_than_minimum minimum_years balance_sheet_response)) (\<lambda>enough.
      if \<not> enough then raises (Exception (balance_short symbol)) else
      let financials = financials(''balance_sheet'' \<mapsto> balance_sheet_response) in
      then_do (get_cash_flow_statement self tr symbol)
        (\<lambda>(cash_flow_statement_response, cash_flow_err).
      if truthy cash_flow_err then raises (Exception (cash_flow_failed symbol)) else
      then_do (lift (has_more_than_minimum minimum_years cash_flow_statement_response))
        (\<lambda>enough.
      if \<not> enough then raises (Exception (cash_flow_short symbol)) else
      let financials = financials(''cash_flow_statement'' \<mapsto> cash_flow_statement_response) in
      returns financials)))))))"

section \<open>Vocabulary of the properties\<close>

text \<open>
  What \<^verbatim>\<open>_call_api\<close> makes of an answer of the transport: the pair it returns, or the
  exception that leaves it.
\<close>

fun fetched :: "pyexc + response \<Rightarrow> pyexc + json \<times> pyexc option" where
  "fetched (Inl e) = (if is_Exception e then Inr (JNull, Some e) else Inl e)"
| "fetched (Inr resp) =
     (case json_result resp of
        Inl e \<Rightarrow> if is_Exception e then Inr (JNull, Some e) else Inl e
      | Inr v \<Rightarrow> Inr (v, None))"

text \<open>
  The two tests that follow each fetch in \<^verbatim>\<open>get_financials\<close>: the error test, then the
  minimum-years test. \<open>Inr\<close> carries the bundle that is stored in the result.
\<close>

definition verdict :: "string \<Rightarrow> string \<Rightarrow> int \<Rightarrow> json \<times> pyexc option \<Rightarrow> pyexc + json" where
  "verdict failed short m p =
     (if truthy (snd p) then Inl (Exception failed)
      else case has_more_than_minimum m (fst p) of
             Inl e \<Rightarrow> Inl e
           | Inr enough \<Rightarrow> if enough then Inr (fst p) else Inl (Exception short))"

text \<open>
  The same on the outcome of a fetch: an exception that left the fetch leaves
  \<^verbatim>\<open>get_financials\<close> as well.
\<close>

definition judged ::
  "string \<Rightarrow> string \<Rightarrow> int \<Rightarrow> pyexc + json \<times> pyexc option \<Rightarrow> pyexc + json" where
  "judged failed short m r = (case r of Inl e \<Rightarrow> Inl e | Inr p \<Rightarrow> verdict failed short m p)"

text \<open>
  The outcomes that \<^verbatim>\<open>_call_api\<close> can have: an exception that is no \<^verbatim>\<open>Exception\<close>, a
  parsed body without an error, or \<^verbatim>\<open>None\<close> with an error that is an \<^verbatim>\<open>Exception\<close>.
\<close>

definition well_formed :: "pyexc + json \<times> pyexc option \<Rightarrow> bool" where
  "well_formed r =
     (case r of
        Inl e \<Rightarrow> \<not> is_Exception e
      | Inr p \<Rightarrow> (case snd p of None \<Rightarrow> True | Some e \<Rightarrow> fst p = JNull \<and> is_Exception e))"

text \<open>
  The length of \<^verbatim>\<open>data["financials"]\<close> where \<^verbatim>\<open>len(data["financials"])\<close> evaluates, and
  \<open>None\<close> where it raises.
\<close>

definition financials_length :: "json \<Rightarrow> nat option" where
  "financials_length data =
     (case subscript data ''financials'' of
        Inl e \<Rightarrow> None
      | Inr v \<Rightarrow> (case py_len v of Inl e \<Rightarrow> None | Inr k \<Rightarrow> Some k))"

text \<open>
  A fetched pair passes when the fetch gave no error and the bundle has a \<^verbatim>\<open>"financials"\<close>
  value of length at least \<open>m\<close>; it falls short when the fetch gave no error and that
  length is below \<open>m\<close>.
\<close>

definition passes :: "int \<Rightarrow> json \<times> pyexc option \<Rightarrow> bool" where
  "passes m p \<longleftrightarrow>
     snd p = None \<and> (case financials_length (fst p) of None \<Rightarrow> False | Some k \<Rightarrow> m \<le> int k)"

definition falls_short :: "int \<Rightarrow> json \<times> pyexc option \<Rightarrow> bool" where
  "falls_short m p \<longleftrightarrow>
     snd p = None \<and> (case financials_length (fst p) of None \<Rightarrow> False | Some k \<Rightarrow> int k < m)"

text \<open>The call returned, and \<open>P\<close> holds of what it returned.\<close>

definition after_return :: "('a \<Rightarrow> bool) \<Rightarrow> pyexc + 'a \<Rightarrow> bool" where
  "after_return P r = (case r of Inl e \<Rightarrow> False | Inr x \<Rightarrow> P x)"

text \<open>A transport is deterministic when its answer depends on the URL only.\<close>

definition deterministic :: "'w transport \<Rightarrow> bool" where
  "deterministic tr \<longleftrightarrow> (\<forall>w w' url. fst (tr w url) = fst (tr w' url))"

text \<open>
  Two results agree apart from the symbol echoed in the message: they are equal, or they
  are plain exceptions whose messages differ only in that one has \<open>s\<close> where the other
  has \<open>s'\<close>.
\<close>

definition echo_equiv :: "string \<Rightarrow> string \<Rightarrow> pyexc + 'a \<Rightarrow> pyexc + 'a \<Rightarrow> bool" where
  "echo_equiv s s' r r' \<longleftrightarrow>
     r = r' \<or>
     (\<exists>pre post. r = Inl (Exception (pre @ s @ post)) \<and> r' = Inl (Exception (pre @ s' @ post)))"

section \<open>Scenarios\<close>

text \<open>
  A client as \<^verbatim>\<open>__init__\<close> builds it; a transport that answers the \<open>k\<close>-th request with
  the \<open>k\<close>-th entry of a list and raises a connection error once the list is used up; a
  response whose body parses to \<open>v\<close>; a statement bundle with \<open>k\<close> periods; a transport
  that always answers with three periods; and a quote.
\<close>

definition example_client :: client where
  "example_client =
     init ''<financial_modeling_prep.financial_modeling_prep.FinancialModelingPrep object at 0x7f3c5a1d2e80>''"

definition answers :: "(pyexc + response) list \<Rightarrow> nat transport" where
  "answers rs k url =
     ((if k < length rs then rs ! k else Inl (LibraryError ''ConnectionError'')), Suc k)"

definition ok :: "json \<Rightarrow> pyexc + response" where
  "ok v = Inr (Response (Inr v))"

definition periods :: "nat \<Rightarrow> json" where
  "periods k = JObj [(''symbol'', JStr ''MSFT''), (''financials'', JArr (replicate k (JObj [])))]"

definition steady :: "nat transport" where
  "steady k url = (ok (periods 3), Suc k)"

definition apple_quote :: json where
  "apple_quote = JObj [(''symbol'', JStr ''AAPL''), (''price'', JFloat ''150.0'')]"

section \<open>Running the methods\<close>

lemma call_api_run:
  "call_api tr url (l, w) = (fetched (fst (tr w url)), (l @ [url], snd (tr w url)))"
  by (cases "tr w url"; cases "fst (tr w url)")
     (auto simp: call_api_def try_except_def then_do_def requests_get_def lift_def returns_def
           split: sum.splits prod.splits)

lemma get_quotes_run:
  "get_quotes c tr s (l, w) =
     ((case fetched (fst (tr w (quote_url c s))) of
         Inl e \<Rightarrow> Inl e
       | Inr p \<Rightarrow> if truthy (snd p) then Inl (Exception (quote_failed s)) else Inl AttributeError),
      (l @ [quote_url c s], snd (tr w (quote_url c s))))"
  by (simp add: get_quotes_def then_do_def call_api_run raises_def lift_def
        split: prod.splits sum.splits)

lemma stage_run:
  "then_do (call_api tr url) (\<lambda>(d, err).
     if truthy err then raises (Exception failed) else
     then_do (lift (has_more_than_minimum m d)) (\<lambda>enough.
     if \<not> enough then raises (Exception short) else K d)) (l, w) =
   (case judged failed short m (fetched (fst (tr w url))) of
      Inl e \<Rightarrow> (Inl e, (l @ [url], snd (tr w url)))
    | Inr d \<Rightarrow> K d (l @ [url], snd (tr w url)))"
  by (cases "fetched (fst (tr w url))")
     (auto simp: then_do_def call_api_run raises_def lift_def verdict_def judged_def
           split: sum.splits)

lemma get_financials_run:
  "get_financials c tr s m (l, w) =
     (let u1 = income_statement_url c s; u2 = balance_sheet_url c s;
          u3 = cash_flow_statement_url c s;
          t1 = tr w u1; t2 = tr (snd t1) u2; t3 = tr (snd t2) u3 in
      case judged (income_failed s) (income_short s) m (fetched (fst t1)) of
        Inl e \<Rightarrow> (Inl e, (l @ [u1], snd t1))
      | Inr d1 \<Rightarrow>
         (case judged (balance_failed s) (balance_short s) m (fetched (fst t2)) of
            Inl e \<Rightarrow> (Inl e, (l @ [u1, u2], snd t2))
          | Inr d2 \<Rightarrow>
             (case judged (cash_flow_failed s) (cash_flow_short s) m (fetched (fst t3)) of
                Inl e \<Rightarrow> (Inl e, (l @ [u1, u2, u3], snd t3))
              | Inr d3 \<Rightarrow>
                 (Inr [''income_statement'' \<mapsto> d1, ''balance_sheet'' \<mapsto> d2,
                       ''cash_flow_statement'' \<mapsto> d3],
                  (l @ [u1, u2, u3], snd t3)))))"
  unfolding get_financials_def get_income_statement_def get_balance_sheet_def
    get_cash_flow_statement_def Let_def
  by (simp add: stage_run returns_def split: sum.splits)

lemma get_financials_result:
  "fst (get_financials c tr s m (l, w)) =
     (let t1 = tr w (income_statement_url c s);
          t2 = tr (snd t1) (balance_sheet_url c s);
          t3 = tr (snd t2) (cash_flow_statement_url c s) in
      case judged (income_failed s) (income_short s) m (fetched (fst t1)) of
        Inl e \<Rightarrow> Inl e
      | Inr d1 \<Rightarrow>
         (case judged (balance_failed s) (balance_short s) m (fetched (fst t2)) of
            Inl e \<Rightarrow> Inl e
          | Inr d2 \<Rightarrow>
             (case judged (cash_flow_failed s) (cash_flow_short s) m (fetched (fst t3)) of
                Inl e \<Rightarrow> Inl e
              | Inr d3 \<Rightarrow>
                 Inr [''income_statement'' \<mapsto> d1, ''balance_sheet'' \<mapsto> d2,
                      ''cash_flow_statement'' \<mapsto> d3])))"
  by (simp add: get_financials_run Let_def split: sum.splits)

lemma get_income_statement_run:
  "get_income_statement c tr s (l, w) =
     (fetched (fst (tr w (income_statement_url c s))),
      (l @ [income_statement_url c s], snd (tr w (income_statement_url c s))))"
  by (simp add: get_income_statement_def call_api_run)

lemma get_balance_sheet_run:
  "get_balance_sheet c tr s (l, w) =
     (fetched (fst (tr w (balance_sheet_url c s))),
      (l @ [balance_sheet_url c s], snd (tr w (balance_sheet_url c s))))"
  by (simp add: get_balance_sheet_def call_api_run)

lemma get_cash_flow_statement_run:
  "get_cash_flow_statement c tr s (l, w) =
     (fetched (fst (tr w (cash_flow_statement_url c s))),
      (l @ [cash_flow_statement_url c s], snd (tr w (cash_flow_statement_url c s))))"
  by (simp add: get_cash_flow_statement_def call_api_run)

lemmas statement_runs = get_income_statement_run get_balance_sheet_run get_cash_flow_statement_run

lemma run_logs:
  "get_income_statement c tr s n0 = (r1, n1) \<Longrightarrow> fst n1 = fst n0 @ [income_statement_url c s]"
  "get_balance_sheet c tr s n0 = (r2, n2) \<Longrightarrow> fst n2 = fst n0 @ [balance_sheet_url c s]"
  "get_cash_flow_statement c tr s n0 = (r3, n3) \<Longrightarrow>
     fst n3 = fst n0 @ [cash_flow_statement_url c s]"
  by (cases n0; auto simp: statement_runs)+

lemma fetched_well_formed: "well_formed (fetched x)"
  by (cases x) (auto simp: well_formed_def split: sum.splits)

lemma run_well_formed:
  "get_income_statement c tr s n0 = (r, n1) \<Longrightarrow> well_formed r"
  "get_balance_sheet c tr s n0 = (r, n1) \<Longrightarrow> well_formed r"
  "get_cash_flow_statement c tr s n0 = (r, n1) \<Longrightarrow> well_formed r"
  by (cases n0; auto simp: statement_runs fetched_well_formed)+


lemma call_api_propagates:
  "tr w url = (Inl e, w') \<Longrightarrow> \<not> is_Exception e \<Longrightarrow>
     call_api tr url (l, w) = (Inl e, (l @ [url], w'))"
  "tr w url = (Inr resp, w') \<Longrightarrow> json_result resp = Inl e \<Longrightarrow> \<not> is_Exception e \<Longrightarrow>
     call_api tr url (l, w) = (Inl e, (l @ [url], w'))"
  by (simp_all add: call_api_run)

lemma has_more_than_minimum_iff:
  "has_more_than_minimum m d = Inr b \<longleftrightarrow>
     (\<exists>k. financials_length d = Some k \<and> b = (m \<le> int k))"
  by (auto simp: has_more_than_minimum_def financials_length_def split: sum.splits)

lemma has_more_than_minimum_Inl:
  "has_more_than_minimum m d = Inl e \<Longrightarrow> e = KeyError ''financials'' \<or> e = TypeError"
  by (cases d; cases "the (map_of (case d of JObj kvs \<Rightarrow> kvs | _ \<Rightarrow> []) ''financials'')")
     (auto simp: has_more_than_minimum_def split: sum.splits option.splits)

lemma has_more_than_minimum_JNull: "has_more_than_minimum m JNull = Inl TypeError"
  by (simp add: has_more_than_minimum_def)

lemma passes_iff: "passes m p \<longleftrightarrow> snd p = None \<and> has_more_than_minimum m (fst p) = Inr True"
  by (auto simp: passes_def has_more_than_minimum_iff split: option.splits)

lemma falls_short_iff:
  "falls_short m p \<longleftrightarrow> snd p = None \<and> has_more_than_minimum m (fst p) = Inr False"
  by (auto simp: falls_short_def has_more_than_minimum_iff split: option.splits)

lemma passes_no_error: "passes m p \<Longrightarrow> snd p = None"
  by (simp add: passes_def)

lemma falls_short_no_error: "falls_short m p \<Longrightarrow> snd p = None"
  by (simp add: falls_short_def)

lemma not_passes_and_short: "passes m p \<Longrightarrow> \<not> falls_short m p"
  by (auto simp: passes_def falls_short_def split: option.splits)

lemma after_return_simps:
  "after_return P (Inl e) = False"
  "after_return P (Inr x) = P x"
  by (simp_all add: after_return_def)

lemma leftover_error:
  "(case has_more_than_minimum m d of Inl e \<Rightarrow> e | Inr b \<Rightarrow> TypeError) \<noteq> Exception msg"
  using has_more_than_minimum_Inl [of m d]
  by (auto split: sum.splits)

lemma verdict_no_error:
  "verdict failed short m (d, None) =
     (if passes m (d, None) then Inr d
      else if falls_short m (d, None) then Inl (Exception short)
      else Inl (case has_more_than_minimum m d of Inl e \<Rightarrow> e | Inr b \<Rightarrow> TypeError))"
  by (auto simp: verdict_def passes_iff falls_short_iff split: sum.splits)

lemma verdict_error:
  "verdict failed short m (JNull, Some e) =
     (if exception_bool e then Inl (Exception failed) else Inl TypeError)"
  by (simp add: verdict_def has_more_than_minimum_JNull)

lemma judged_Inr:
  assumes "well_formed r"
  shows "judged failed short m r = Inr d \<longleftrightarrow>
           r = Inr (d, None) \<and> has_more_than_minimum m d = Inr True"
proof (cases r)
  case (Inl e)
  then show ?thesis by (simp add: judged_def)
next
  case (Inr p)
  obtain d' err where p: "p = (d', err)" by (cases p)
  show ?thesis
  proof (cases err)
    case None
    then show ?thesis
      by (auto simp: Inr p judged_def verdict_def split: sum.splits)
  next
    case (Some e)
    with assms have "d' = JNull" by (simp add: Inr p well_formed_def)
    then show ?thesis
      by (auto simp: Inr p Some judged_def verdict_def has_more_than_minimum_JNull)
  qed
qed

lemma judged_cases:
  assumes "well_formed r"
  shows "judged failed short m r =
     (case r of
        Inl e \<Rightarrow> Inl e
      | Inr p \<Rightarrow>
         (case snd p of
            Some e \<Rightarrow> if exception_bool e then Inl (Exception failed) else Inl TypeError
          | None \<Rightarrow>
             if passes m p then Inr (fst p)
             else if falls_short m p then Inl (Exception short)
             else Inl (case has_more_than_minimum m (fst p) of
                         Inl e \<Rightarrow> e | Inr b \<Rightarrow> TypeError)))"
proof (cases r)
  case (Inl e)
  then show ?thesis by (simp add: judged_def)
next
  case (Inr p)
  obtain d err where p: "p = (d, err)" by (cases p)
  show ?thesis
  proof (cases err)
    case None
    then show ?thesis
      by (simp add: Inr p judged_def verdict_no_error)
  next
    case (Some e)
    with assms have "d = JNull" by (simp add: Inr p well_formed_def)
    then show ?thesis
      by (simp add: Inr p Some judged_def verdict_error)
  qed
qed

lemma judged_stops:
  assumes "well_formed r" and "\<not> after_return (passes m) r"
  shows "\<exists>e. judged failed short m r = Inl e"
proof (cases r)
  case (Inl e)
  then show ?thesis by (simp add: judged_def)
next
  case (Inr p)
  with assms have "\<not> passes m p" and wf: "well_formed (Inr p)"
    by (simp_all add: after_return_def)
  then show ?thesis
    by (simp add: Inr judged_cases [OF wf] split: option.splits)
qed

lemma judged_passes:
  assumes "passes m p"
  shows "judged failed short m (Inr p) = Inr (fst p)"
proof -
  obtain d err where pair: "p = (d, err)" by (cases p)
  from assms have "err = None" by (simp add: pair passes_def)
  with assms show ?thesis
    by (simp add: pair judged_def verdict_no_error)
qed

lemma judged_goes_on:
  assumes "after_return (passes m) r"
  shows "\<exists>d. judged failed short m r = Inr d"
proof -
  from assms obtain p where "r = Inr p" and "passes m p"
    by (cases r) (auto simp: after_return_def)
  then show ?thesis
    by (simp add: judged_passes)
qed

lemma judged_short:
  assumes "well_formed r" and "failed \<noteq> short"
  shows "judged failed short m r = Inl (Exception short) \<longleftrightarrow> after_return (falls_short m) r"
proof (cases r)
  case (Inl e)
  with assms(1) show ?thesis
    by (auto simp: judged_def after_return_def well_formed_def)
next
  case (Inr p)
  obtain d err where p: "p = (d, err)" by (cases p)
  show ?thesis
  proof (cases err)
    case None
    have "verdict failed short m (d, None) = Inl (Exception short) \<longleftrightarrow>
        falls_short m (d, None)"
      using not_passes_and_short [of m "(d, None)"]
      by (auto simp: verdict_no_error leftover_error)
    then show ?thesis
      by (simp add: Inr p None judged_def after_return_def)
  next
    case (Some e)
    with assms(1) have "d = JNull" by (simp add: Inr p well_formed_def)
    then show ?thesis
      using assms(2)
      by (simp add: Inr p Some judged_def after_return_def verdict_error falls_short_def)
  qed
qed

lemma judged_other_short:
  assumes "well_formed r" and "failed \<noteq> other" and "short \<noteq> other"
  shows "judged failed short m r \<noteq> Inl (Exception other)"
proof (cases r)
  case (Inl e)
  with assms(1) show ?thesis
    by (auto simp: judged_def well_formed_def)
next
  case (Inr p)
  obtain d err where p: "p = (d, err)" by (cases p)
  show ?thesis
  proof (cases err)
    case None
    then show ?thesis
      using assms(3)
      by (simp add: Inr p judged_def verdict_no_error leftover_error)
  next
    case (Some e)
    with assms(1) have "d = JNull" by (simp add: Inr p well_formed_def)
    then show ?thesis
      using assms(2)
      by (simp add: Inr p Some judged_def verdict_error)
  qed
qed

lemma get_financials_from_runs:
  assumes "get_income_statement c tr s n0 = (r1, n1)"
      and "get_balance_sheet c tr s n1 = (r2, n2)"
      and "get_cash_flow_statement c tr s n2 = (r3, n3)"
  shows "get_financials c tr s m n0 =
     (case judged (income_failed s) (income_short s) m r1 of
        Inl e \<Rightarrow> (Inl e, n1)
      | Inr d1 \<Rightarrow>
         (case judged (balance_failed s) (balance_short s) m r2 of
            Inl e \<Rightarrow> (Inl e, n2)
          | Inr d2 \<Rightarrow>
             (case judged (cash_flow_failed s) (cash_flow_short s) m r3 of
                Inl e \<Rightarrow> (Inl e, n3)
              | Inr d3 \<Rightarrow>
                 (Inr [''income_statement'' \<mapsto> d1, ''balance_sheet'' \<mapsto> d2,
                       ''cash_flow_statement'' \<mapsto> d3], n3))))"
proof -
  obtain l w where n0: "n0 = (l, w)" by (cases n0)
  from assms(1) have 1: "r1 = fetched (fst (tr w (income_statement_url c s)))"
      "n1 = (l @ [income_statement_url c s], snd (tr w (income_statement_url c s)))"
    by (simp_all add: n0 statement_runs)
  from assms(2) have 2: "r2 = fetched (fst (tr (snd n1) (balance_sheet_url c s)))"
      "n2 = (fst n1 @ [balance_sheet_url c s], snd (tr (snd n1) (balance_sheet_url c s)))"
    by (simp_all add: 1(2) statement_runs)
  from assms(3) have 3: "r3 = fetched (fst (tr (snd n2) (cash_flow_statement_url c s)))"
      "n3 = (fst n2 @ [cash_flow_statement_url c s],
             snd (tr (snd n2) (cash_flow_statement_url c s)))"
    by (simp_all add: 2(2) statement_runs)
  show ?thesis
    unfolding n0 get_financials_run Let_def
    by (simp add: 1 2 3 split: sum.splits)
qed

lemma get_financials_raises:
  assumes "get_income_statement c tr s n0 = (r1, n1)"
      and "get_balance_sheet c tr s n1 = (r2, n2)"
      and "get_cash_flow_statement c tr s n2 = (r3, n3)"
  shows "fst (get_financials c tr s m n0) = Inl e \<longleftrightarrow>
     judged (income_failed s) (income_short s) m r1 = Inl e \<or>
     after_return (passes m) r1 \<and>
       (judged (balance_failed s) (balance_short s) m r2 = Inl e \<or>
        after_return (passes m) r2 \<and>
          judged (cash_flow_failed s) (cash_flow_short s) m r3 = Inl e)"
proof -
  note wf = run_well_formed(1) [OF assms(1)] run_well_formed(2) [OF assms(2)]
    run_well_formed(3) [OF assms(3)]
  note run = get_financials_from_runs [OF assms, of m]
  show ?thesis
  proof (cases "after_return (passes m) r1")
    case False
    from judged_stops [OF wf(1) False] obtain e'
      where "judged (income_failed s) (income_short s) m r1 = Inl e'" by blast
    with False show ?thesis by (simp add: run)
  next
    case one: True
    from judged_goes_on [OF one] obtain d1
      where d1: "judged (income_failed s) (income_short s) m r1 = Inr d1" by blast
    show ?thesis
    proof (cases "after_return (passes m) r2")
      case False
      from judged_stops [OF wf(2) False] obtain e'
        where "judged (balance_failed s) (balance_short s) m r2 = Inl e'" by blast
      with one False d1 show ?thesis by (simp add: run)
    next
      case two: True
      from judged_goes_on [OF two] obtain d2
        where d2: "judged (balance_failed s) (balance_short s) m r2 = Inr d2" by blast
      from one two d1 d2 show ?thesis
        by (simp add: run split: sum.splits)
    qed
  qed
qed

subsection \<open>The messages\<close>

lemma short_messages_differ:
  "income_short s \<noteq> balance_short s'" "income_short s \<noteq> cash_flow_short s'"
  "balance_short s \<noteq> cash_flow_short s'" "balance_short s \<noteq> income_short s'"
  "cash_flow_short s \<noteq> income_short s'" "cash_flow_short s \<noteq> balance_short s'"
  by (simp_all add: income_short_def balance_short_def cash_flow_short_def)

lemma failed_short_differ:
  "income_failed s \<noteq> income_short s'" "income_failed s \<noteq> balance_short s'"
  "income_failed s \<noteq> cash_flow_short s'"
  "balance_failed s \<noteq> income_short s'" "balance_failed s \<noteq> balance_short s'"
  "balance_failed s \<noteq> cash_flow_short s'"
  "cash_flow_failed s \<noteq> income_short s'" "cash_flow_failed s \<noteq> balance_short s'"
  "cash_flow_failed s \<noteq> cash_flow_short s'"
  by (simp_all add: income_short_def balance_short_def cash_flow_short_def
        income_failed_def balance_failed_def cash_flow_failed_def)

lemmas messages_differ =
  short_messages_differ failed_short_differ failed_short_differ [THEN not_sym]

subsection \<open>Upper case\<close>

lemma upper_example: "upper ''aapl'' = ''AAPL''"
  by code_simp

lemma upper_char_idem: "upper_char (upper_char ch) = upper_char ch"
proof -
  define k where "k = (of_char ch :: nat)"
  show ?thesis
  proof (cases "97 \<le> k \<and> k \<le> 122")
    case True
    then have up: "upper_char ch = char_of (k - 32)"
      by (simp add: upper_char_def Let_def k_def)
    from True have "(k - 32) mod 256 = k - 32"
      by (intro mod_less) linarith
    then have code: "(of_char (char_of (k - 32)) :: nat) = k - 32"
      by simp
    from True have "\<not> 97 \<le> k - 32"
      by linarith
    then have "upper_char (char_of (k - 32)) = char_of (k - 32)"
      by (simp add: upper_char_def Let_def code)
    with up show ?thesis
      by simp
  next
    case False
    then have "upper_char ch = ch"
      by (auto simp: upper_char_def Let_def k_def)
    then show ?thesis
      by simp
  qed
qed

lemma upper_idem: "upper (upper s) = upper s"
  by (simp add: upper_def upper_char_idem)

lemma urls_upper:
  "quote_url c (upper s) = quote_url c s"
  "income_statement_url c (upper s) = income_statement_url c s"
  "balance_sheet_url c (upper s) = balance_sheet_url c s"
  "cash_flow_statement_url c (upper s) = cash_flow_statement_url c s"
  by (simp_all add: quote_url_def income_statement_url_def balance_sheet_url_def
        cash_flow_statement_url_def upper_idem)

subsection \<open>The scenarios, evaluated\<close>

lemma answers_simps:
  "answers [] k url = (Inl (LibraryError ''ConnectionError''), Suc k)"
  "answers (r # rs) 0 url = (r, Suc 0)"
  "answers (r # rs) (Suc k) url = (fst (answers rs k url), Suc (Suc k))"
  by (simp_all add: answers_def)

lemma fetched_ok: "fetched (ok v) = Inr (v, None)"
  by (simp add: ok_def)

lemma financials_length_periods: "financials_length (periods k) = Some k"
  by (simp add: financials_length_def periods_def)

lemmas scenario =
  statement_runs get_financials_run get_quotes_run answers_simps fetched_ok judged_def
  verdict_no_error verdict_error passes_def falls_short_def financials_length_periods Let_def

lemma runs_255:
  "get_income_statement example_client (answers [ok (periods 2), ok (periods 5), ok (periods 5)])
     ''xyz'' ([], 0) =
     (Inr (periods 2, None), ([income_statement_url example_client ''xyz''], Suc 0))"
  "get_balance_sheet example_client (answers [ok (periods 2), ok (periods 5), ok (periods 5)])
     ''xyz'' ([income_statement_url example_client ''xyz''], Suc 0) =
     (Inr (periods 5, None),
      ([income_statement_url example_client ''xyz'', balance_sheet_url example_client ''xyz''],
       Suc (Suc 0)))"
  "get_cash_flow_statement example_client
     (answers [ok (periods 2), ok (periods 5), ok (periods 5)]) ''xyz''
     ([income_statement_url example_client ''xyz'', balance_sheet_url example_client ''xyz''],
      Suc (Suc 0)) =
     (Inr (periods 5, None),
      ([income_statement_url example_client ''xyz'', balance_sheet_url example_client ''xyz'',
        cash_flow_statement_url example_client ''xyz''], Suc (Suc (Suc 0))))"
  by (simp_all add: scenario)

lemma runs_323:
  "get_income_statement example_client (answers [ok (periods 3), ok (periods 2), ok (periods 3)])
     ''msft'' ([], 0) =
     (Inr (periods 3, None), ([income_statement_url example_client ''msft''], Suc 0))"
  "get_balance_sheet example_client (answers [ok (periods 3), ok (periods 2), ok (periods 3)])
     ''msft'' ([income_statement_url example_client ''msft''], Suc 0) =
     (Inr (periods 2, None),
      ([income_statement_url example_client ''msft'', balance_sheet_url example_client ''msft''],
       Suc (Suc 0)))"
  "get_cash_flow_statement example_client
     (answers [ok (periods 3), ok (periods 2), ok (periods 3)]) ''msft''
     ([income_statement_url example_client ''msft'', balance_sheet_url example_client ''msft''],
      Suc (Suc 0)) =
     (Inr (periods 3, None),
      ([income_statement_url example_client ''msft'', balance_sheet_url example_client ''msft'',
        cash_flow_statement_url example_client ''msft''], Suc (Suc (Suc 0))))"
  by (simp_all add: scenario)

lemma runs_332:
  "get_income_statement example_client (answers [ok (periods 3), ok (periods 3), ok (periods 2)])
     ''msft'' ([], 0) =
     (Inr (periods 3, None), ([income_statement_url example_client ''msft''], Suc 0))"
  "get_balance_sheet example_client (answers [ok (periods 3), ok (periods 3), ok (periods 2)])
     ''msft'' ([income_statement_url example_client ''msft''], Suc 0) =
     (Inr (periods 3, None),
      ([income_statement_url example_client ''msft'', balance_sheet_url example_client ''msft''],
       Suc (Suc 0)))"
  "get_cash_flow_statement example_client
     (answers [ok (periods 3), ok (periods 3), ok (periods 2)]) ''msft''
     ([income_statement_url example_client ''msft'', balance_sheet_url example_client ''msft''],
      Suc (Suc 0)) =
     (Inr (periods 2, None),
      ([income_statement_url example_client ''msft'', balance_sheet_url example_client ''msft'',
        cash_flow_statement_url example_client ''msft''], Suc (Suc (Suc 0))))"
  by (simp_all add: scenario)

lemma deterministic_steady: "deterministic steady"
  by (simp add: deterministic_def steady_def)

section \<open>The result of \<^verbatim>\<open>get_financials\<close> is complete\<close>

text \<open>
  C1: whenever \<^verbatim>\<open>get_financials(s, m)\<close> returns, all three statements were fetched without
  error, one after the other, each fetched bundle has a \<^verbatim>\<open>"financials"\<close> value whose length
  is defined and at least \<open>m\<close>, and the returned mapping holds exactly the three keys
  \<^verbatim>\<open>"income_statement"\<close>, \<^verbatim>\<open>"balance_sheet"\<close> and \<^verbatim>\<open>"cash_flow_statement"\<close>, bound to these
  three bundles. No mapping with fewer keys is returned.
\<close>

theorem get_financials_all_three:
  assumes "get_financials c tr s m n0 = (Inr r, n')"
  shows "\<exists>d1 n1 d2 n2 d3 k1 k2 k3.
      get_income_statement c tr s n0 = (Inr (d1, None), n1) \<and>
      get_balance_sheet c tr s n1 = (Inr (d2, None), n2) \<and>
      get_cash_flow_statement c tr s n2 = (Inr (d3, None), n') \<and>
      financials_length d1 = Some k1 \<and> m \<le> int k1 \<and>
      financials_length d2 = Some k2 \<and> m \<le> int k2 \<and>
      financials_length d3 = Some k3 \<and> m \<le> int k3 \<and>
      r = [''income_statement'' \<mapsto> d1, ''balance_sheet'' \<mapsto> d2,
           ''cash_flow_statement'' \<mapsto> d3] \<and>
      dom r = {''income_statement'', ''balance_sheet'', ''cash_flow_statement''}"
proof -
  obtain l w where n0: "n0 = (l, w)" by (cases n0)
  define t1 where "t1 = tr w (income_statement_url c s)"
  define t2 where "t2 = tr (snd t1) (balance_sheet_url c s)"
  define t3 where "t3 = tr (snd t2) (cash_flow_statement_url c s)"
  define r1 where "r1 = fetched (fst t1)"
  define r2 where "r2 = fetched (fst t2)"
  define r3 where "r3 = fetched (fst t3)"
  from assms obtain d1 d2 d3 where
    v1: "judged (income_failed s) (income_short s) m r1 = Inr d1" and
    v2: "judged (balance_failed s) (balance_short s) m r2 = Inr d2" and
    v3: "judged (cash_flow_failed s) (cash_flow_short s) m r3 = Inr d3" and
    r: "r = [''income_statement'' \<mapsto> d1, ''balance_sheet'' \<mapsto> d2,
             ''cash_flow_statement'' \<mapsto> d3]" and
    n': "n' = (l @ [income_statement_url c s, balance_sheet_url c s,
                    cash_flow_statement_url c s], snd t3)"
    unfolding n0 get_financials_run Let_def r1_def r2_def r3_def t1_def t2_def t3_def
    by (auto split: sum.splits)
  have wf: "well_formed r1" "well_formed r2" "well_formed r3"
    by (simp_all add: r1_def r2_def r3_def fetched_well_formed)
  from v1 have 1: "r1 = Inr (d1, None)" "has_more_than_minimum m d1 = Inr True"
    by (simp_all add: judged_Inr [OF wf(1)])
  from v2 have 2: "r2 = Inr (d2, None)" "has_more_than_minimum m d2 = Inr True"
    by (simp_all add: judged_Inr [OF wf(2)])
  from v3 have 3: "r3 = Inr (d3, None)" "has_more_than_minimum m d3 = Inr True"
    by (simp_all add: judged_Inr [OF wf(3)])
  from 1(2) obtain k1 where k1: "financials_length d1 = Some k1" "m \<le> int k1"
    by (auto simp: has_more_than_minimum_iff)
  from 2(2) obtain k2 where k2: "financials_length d2 = Some k2" "m \<le> int k2"
    by (auto simp: has_more_than_minimum_iff)
  from 3(2) obtain k3 where k3: "financials_length d3 = Some k3" "m \<le> int k3"
    by (auto simp: has_more_than_minimum_iff)
  have g1: "get_income_statement c tr s n0 =
      (Inr (d1, None), (l @ [income_statement_url c s], snd t1))"
    using 1(1) by (simp add: n0 statement_runs r1_def t1_def)
  have g2: "get_balance_sheet c tr s (l @ [income_statement_url c s], snd t1) =
      (Inr (d2, None), (l @ [income_statement_url c s, balance_sheet_url c s], snd t2))"
    using 2(1) by (simp add: statement_runs r2_def t2_def)
  have g3: "get_cash_flow_statement c tr s
        (l @ [income_statement_url c s, balance_sheet_url c s], snd t2) = (Inr (d3, None), n')"
    using 3(1) by (simp add: statement_runs r3_def t3_def n')
  have dom: "dom r = {''income_statement'', ''balance_sheet'', ''cash_flow_statement''}"
    unfolding r by auto
  from g1 g2 g3 k1 k2 k3 r dom show ?thesis by blast
qed

theorem get_financials_all_three_witness:
  "get_financials example_client (answers [ok (periods 3), ok (periods 3), ok (periods 4)])
     ''msft'' 3 ([], 0) =
     (Inr [''income_statement'' \<mapsto> periods 3, ''balance_sheet'' \<mapsto> periods 3,
           ''cash_flow_statement'' \<mapsto> periods 4],
      ([income_statement_url example_client ''msft'', balance_sheet_url example_client ''msft'',
        cash_flow_statement_url example_client ''msft''], Suc (Suc (Suc 0)))) \<and>
   (\<exists>d1 n1 d2 n2 d3 k1 k2 k3.
      get_income_statement example_client
        (answers [ok (periods 3), ok (periods 3), ok (periods 4)]) ''msft'' ([], 0) =
        (Inr (d1, None), n1) \<and>
      get_balance_sheet example_client
        (answers [ok (periods 3), ok (periods 3), ok (periods 4)]) ''msft'' n1 =
        (Inr (d2, None), n2) \<and>
      get_cash_flow_statement example_client
        (answers [ok (periods 3), ok (periods 3), ok (periods 4)]) ''msft'' n2 =
        (Inr (d3, None),
         ([income_statement_url example_client ''msft'',
           balance_sheet_url example_client ''msft'',
           cash_flow_statement_url example_client ''msft''], Suc (Suc (Suc 0)))) \<and>
      financials_length d1 = Some k1 \<and> 3 \<le> int k1 \<and>
      financials_length d2 = Some k2 \<and> 3 \<le> int k2 \<and>
      financials_length d3 = Some k3 \<and> 3 \<le> int k3 \<and>
      [''income_statement'' \<mapsto> periods 3, ''balance_sheet'' \<mapsto> periods 3,
       ''cash_flow_statement'' \<mapsto> periods 4] =
      [''income_statement'' \<mapsto> d1, ''balance_sheet'' \<mapsto> d2, ''cash_flow_statement'' \<mapsto> d3] \<and>
      dom [''income_statement'' \<mapsto> periods 3, ''balance_sheet'' \<mapsto> periods 3,
           ''cash_flow_statement'' \<mapsto> periods 4] =
        {''income_statement'', ''balance_sheet'', ''cash_flow_statement''})"
proof -
  have run: "get_financials example_client
      (answers [ok (periods 3), ok (periods 3), ok (periods 4)]) ''msft'' 3 ([], 0) =
     (Inr [''income_statement'' \<mapsto> periods 3, ''balance_sheet'' \<mapsto> periods 3,
           ''cash_flow_statement'' \<mapsto> periods 4],
      ([income_statement_url example_client ''msft'', balance_sheet_url example_client ''msft'',
        cash_flow_statement_url example_client ''msft''], Suc (Suc (Suc 0))))"
    by (simp add: scenario)
  from run get_financials_all_three [OF run] show ?thesis
    by (rule conjI)
qed

section \<open>The order of the fetches\<close>

text \<open>
  C2: \<^verbatim>\<open>get_financials(s, m)\<close> requests the income statement first, the balance sheet
  second and the cash flow statement third. The state of the network when it ends is the
  state right after the first statement that does not pass (its fetch raised or gave an
  error, or its minimum-years test returned false or raised): nothing is requested after
  it. When all three pass, it is the state after the third fetch.
\<close>

theorem get_financials_fetch_order:
  assumes "get_income_statement c tr s n0 = (r1, n1)"
      and "get_balance_sheet c tr s n1 = (r2, n2)"
      and "get_cash_flow_statement c tr s n2 = (r3, n3)"
  shows "fst n1 = fst n0 @ [income_statement_url c s] \<and>
         fst n2 = fst n1 @ [balance_sheet_url c s] \<and>
         fst n3 = fst n2 @ [cash_flow_statement_url c s] \<and>
         snd (get_financials c tr s m n0) =
           (if \<not> after_return (passes m) r1 then n1
            else if \<not> after_return (passes m) r2 then n2 else n3)"
proof -
  note wf = run_well_formed(1) [OF assms(1)] run_well_formed(2) [OF assms(2)]
    run_well_formed(3) [OF assms(3)]
  note run = get_financials_from_runs [OF assms, of m]
  have "snd (get_financials c tr s m n0) =
      (if \<not> after_return (passes m) r1 then n1
       else if \<not> after_return (passes m) r2 then n2 else n3)"
  proof (cases "after_return (passes m) r1")
    case False
    from judged_stops [OF wf(1) False] obtain e
      where "judged (income_failed s) (income_short s) m r1 = Inl e" by blast
    with False show ?thesis by (simp add: run)
  next
    case one: True
    from judged_goes_on [OF one] obtain d1
      where d1: "judged (income_failed s) (income_short s) m r1 = Inr d1" by blast
    show ?thesis
    proof (cases "after_return (passes m) r2")
      case False
      from judged_stops [OF wf(2) False] obtain e
        where "judged (balance_failed s) (balance_short s) m r2 = Inl e" by blast
      with one False d1 show ?thesis by (simp add: run)
    next
      case two: True
      from judged_goes_on [OF two] obtain d2
        where d2: "judged (balance_failed s) (balance_short s) m r2 = Inr d2" by blast
      from one two d1 d2 show ?thesis
        by (simp add: run split: sum.splits)
    qed
  qed
  with assms show ?thesis
    by (simp add: run_logs)
qed

theorem get_financials_fetch_order_witness:
  "fst (snd (get_financials example_client
      (answers [ok (periods 2), ok (periods 5), ok (periods 5)]) ''xyz'' 5 ([], 0))) =
     [income_statement_url example_client ''xyz''] \<and>
   fst (snd (get_financials example_client
      (answers [ok (periods 3), Inl (LibraryError ''ConnectionError''), ok (periods 3)])
      ''msft'' 3 ([], 0))) =
     [income_statement_url example_client ''msft'', balance_sheet_url example_client ''msft''] \<and>
   fst (snd (get_financials example_client
      (answers [ok (periods 3), ok (periods 3), ok (periods 2)]) ''msft'' 3 ([], 0))) =
     [income_statement_url example_client ''msft'', balance_sheet_url example_client ''msft'',
      cash_flow_statement_url example_client ''msft'']"
proof -
  let ?c = example_client
  let ?A = "answers [ok (periods 2), ok (periods 5), ok (periods 5)]"
  let ?B = "answers [ok (periods 3), Inl (LibraryError ''ConnectionError''), ok (periods 3)]"
  let ?C = "answers [ok (periods 3), ok (periods 3), ok (periods 2)]"
  have a1: "get_income_statement ?c ?A ''xyz'' ([], 0) =
      (Inr (periods 2, None), ([income_statement_url ?c ''xyz''], Suc 0))"
    by (simp add: scenario)
  have a2: "get_balance_sheet ?c ?A ''xyz'' ([income_statement_url ?c ''xyz''], Suc 0) =
      (Inr (periods 5, None),
       ([income_statement_url ?c ''xyz'', balance_sheet_url ?c ''xyz''], Suc (Suc 0)))"
    by (simp add: scenario)
  have a3: "get_cash_flow_statement ?c ?A ''xyz''
        ([income_statement_url ?c ''xyz'', balance_sheet_url ?c ''xyz''], Suc (Suc 0)) =
      (Inr (periods 5, None),
       ([income_statement_url ?c ''xyz'', balance_sheet_url ?c ''xyz'',
         cash_flow_statement_url ?c ''xyz''], Suc (Suc (Suc 0))))"
    by (simp add: scenario)
  have b1: "get_income_statement ?c ?B ''msft'' ([], 0) =
      (Inr (periods 3, None), ([income_statement_url ?c ''msft''], Suc 0))"
    by (simp add: scenario)
  have b2: "get_balance_sheet ?c ?B ''msft'' ([income_statement_url ?c ''msft''], Suc 0) =
      (Inr (JNull, Some (LibraryError ''ConnectionError'')),
       ([income_statement_url ?c ''msft'', balance_sheet_url ?c ''msft''], Suc (Suc 0)))"
    by (simp add: scenario)
  have b3: "get_cash_flow_statement ?c ?B ''msft''
        ([income_statement_url ?c ''msft'', balance_sheet_url ?c ''msft''], Suc (Suc 0)) =
      (Inr (periods 3, None),
       ([income_statement_url ?c ''msft'', balance_sheet_url ?c ''msft'',
         cash_flow_statement_url ?c ''msft''], Suc (Suc (Suc 0))))"
    by (simp add: scenario)
  have c1: "get_income_statement ?c ?C ''msft'' ([], 0) =
      (Inr (periods 3, None), ([income_statement_url ?c ''msft''], Suc 0))"
    by (simp add: scenario)
  have c2: "get_balance_sheet ?c ?C ''msft'' ([income_statement_url ?c ''msft''], Suc 0) =
      (Inr (periods 3, None),
       ([income_statement_url ?c ''msft'', balance_sheet_url ?c ''msft''], Suc (Suc 0)))"
    by (simp add: scenario)
  have c3: "get_cash_flow_statement ?c ?C ''msft''
        ([income_statement_url ?c ''msft'', balance_sheet_url ?c ''msft''], Suc (Suc 0)) =
      (Inr (periods 2, None),
       ([income_statement_url ?c ''msft'', balance_sheet_url ?c ''msft'',
         cash_flow_statement_url ?c ''msft''], Suc (Suc (Suc 0))))"
    by (simp add: scenario)
  show ?thesis
    using get_financials_fetch_order [OF a1 a2 a3, of 5]
      get_financials_fetch_order [OF b1 b2 b3, of 3]
      get_financials_fetch_order [OF c1 c2 c3, of 3]
    by (simp add: after_return_simps passes_def financials_length_periods)
qed

section \<open>\<^verbatim>\<open>get_quotes\<close> on a successful fetch\<close>

text \<open>
  \<^verbatim>\<open>_call_api\<close> already returns the parsed body, and \<^verbatim>\<open>get_quotes\<close> calls \<^verbatim>\<open>.json()\<close> on
  it once more. So \<^verbatim>\<open>get_quotes\<close> never returns: it raises its fetch exception or
  \<^verbatim>\<open>AttributeError\<close>.
\<close>

lemma get_quotes_never_returns: "fst (get_quotes c tr s n) \<noteq> Inr v"
  by (cases n) (simp add: get_quotes_run split: sum.splits)

lemma get_quotes_parsed_body:
  "tr w (quote_url c s) = (Inr (Response (Inr v)), w') \<Longrightarrow>
     get_quotes c tr s (l, w) = (Inl AttributeError, (l @ [quote_url c s], w'))"
  by (simp add: get_quotes_run)

text \<open>
  C3: for the symbol \<^verbatim>\<open>"aapl"\<close> and a transport whose body parses to
  \<^verbatim>\<open>{"symbol": "AAPL", "price": 150.0}\<close>, \<^verbatim>\<open>get_quotes\<close> does not return that value: it
  raises \<^verbatim>\<open>AttributeError\<close>, after one request.
\<close>

theorem get_quotes_attribute_error:
  "get_quotes example_client (answers [ok apple_quote]) ''aapl'' ([], 0) =
     (Inl AttributeError, ([quote_url example_client ''aapl''], Suc 0))"
  by (simp add: scenario)

section \<open>The request URLs\<close>

text \<open>
  Whatever the instance prints as, no request URL starts with the versioned base URL that
  \<^verbatim>\<open>_version()\<close> computes: each starts with the text of a bound method.
\<close>

lemma urls_not_versioned:
  "\<not> prefix (version (init r)) (quote_url (init r) s)"
  "\<not> prefix (version (init r)) (income_statement_url (init r) s)"
  "\<not> prefix (version (init r)) (balance_sheet_url (init r) s)"
  "\<not> prefix (version (init r)) (cash_flow_statement_url (init r) s)"
  by (simp_all add: version_def init_def quote_url_def income_statement_url_def
        balance_sheet_url_def cash_flow_statement_url_def bound_method_def)

text \<open>
  C4: for the symbol \<^verbatim>\<open>"aapl"\<close> the four request URLs are the text of the bound method
  \<^verbatim>\<open>_version\<close> or \<^verbatim>\<open>_financials\<close> followed by the endpoint path and \<^verbatim>\<open>AAPL\<close>, and not
  \<^verbatim>\<open>financialmodelingprep.com/api/v3/quote/AAPL\<close> and its like, which is what the
  documented value of \<^verbatim>\<open>_version\<close> would give.
\<close>

theorem urls_print_bound_method:
  "quote_url example_client ''aapl'' =
     ''<bound method FinancialModelingPrep._version of <financial_modeling_prep.financial_modeling_prep.FinancialModelingPrep object at 0x7f3c5a1d2e80>>quote/AAPL'' \<and>
   income_statement_url example_client ''aapl'' =
     ''<bound method FinancialModelingPrep._financials of <financial_modeling_prep.financial_modeling_prep.FinancialModelingPrep object at 0x7f3c5a1d2e80>>income-statement/AAPL'' \<and>
   balance_sheet_url example_client ''aapl'' =
     ''<bound method FinancialModelingPrep._financials of <financial_modeling_prep.financial_modeling_prep.FinancialModelingPrep object at 0x7f3c5a1d2e80>>balance-sheet-statement/AAPL'' \<and>
   cash_flow_statement_url example_client ''aapl'' =
     ''<bound method FinancialModelingPrep._financials of <financial_modeling_prep.financial_modeling_prep.FinancialModelingPrep object at 0x7f3c5a1d2e80>>cash-flow-statement/AAPL'' \<and>
   version example_client @ ''quote/'' @ upper ''aapl'' =
     ''financialmodelingprep.com/api/v3/quote/AAPL'' \<and>
   quote_url example_client ''aapl'' \<noteq> version example_client @ ''quote/'' @ upper ''aapl''"
  by (simp add: version_def init_def quote_url_def income_statement_url_def
        balance_sheet_url_def cash_flow_statement_url_def bound_method_def example_client_def
        upper_example)

section \<open>Not enough data\<close>

text \<open>
  C5, as amended: \<^verbatim>\<open>get_financials(s, m)\<close> raises the not-enough-data exception that names
  a statement and the symbol \<open>s\<close> exactly when that statement falls short (its fetch returned
  no error and its \<^verbatim>\<open>"financials"\<close> value has a length below \<open>m\<close>) and every statement
  before it in the fetch order passes. A bundle whose length is at least \<open>m\<close> does not fall
  short, so it never triggers the exception.
\<close>

theorem insufficient_data_iff:
  assumes "get_income_statement c tr s n0 = (r1, n1)"
      and "get_balance_sheet c tr s n1 = (r2, n2)"
      and "get_cash_flow_statement c tr s n2 = (r3, n3)"
  shows "(fst (get_financials c tr s m n0) = Inl (Exception
            (''Not enough data found in the income statement for ticker symbol '' @ s @ ''.''))
          \<longleftrightarrow> after_return (falls_short m) r1) \<and>
         (fst (get_financials c tr s m n0) = Inl (Exception
            (''Not enough data found in the balance sheet for ticker symbol '' @ s @ ''.''))
          \<longleftrightarrow> after_return (passes m) r1 \<and> after_return (falls_short m) r2) \<and>
         (fst (get_financials c tr s m n0) = Inl (Exception
            (''Not enough data found in the cash flow statement for ticker symbol '' @ s @ ''.''))
          \<longleftrightarrow> after_return (passes m) r1 \<and> after_return (passes m) r2 \<and>
               after_return (falls_short m) r3)"
proof -
  note wf = run_well_formed(1) [OF assms(1)] run_well_formed(2) [OF assms(2)]
    run_well_formed(3) [OF assms(3)]
  note raises = get_financials_raises [OF assms, of m]
  have exclusive: "\<not> (after_return (passes m) r \<and> after_return (falls_short m) r)" for r
    by (cases r) (auto simp: after_return_def dest: not_passes_and_short)
  have 1: "fst (get_financials c tr s m n0) = Inl (Exception (income_short s))
      \<longleftrightarrow> after_return (falls_short m) r1"
    using exclusive [of r1]
    by (auto simp: raises judged_short [OF wf(1)] judged_other_short [OF wf(2)]
          judged_other_short [OF wf(3)] messages_differ)
  have 2: "fst (get_financials c tr s m n0) = Inl (Exception (balance_short s))
      \<longleftrightarrow> after_return (passes m) r1 \<and> after_return (falls_short m) r2"
    using exclusive [of r2]
    by (auto simp: raises judged_short [OF wf(2)] judged_other_short [OF wf(1)]
          judged_other_short [OF wf(3)] messages_differ)
  have 3: "fst (get_financials c tr s m n0) = Inl (Exception (cash_flow_short s))
      \<longleftrightarrow> after_return (passes m) r1 \<and> after_return (passes m) r2 \<and>
           after_return (falls_short m) r3"
    by (auto simp: raises judged_short [OF wf(3)] judged_other_short [OF wf(1)]
          judged_other_short [OF wf(2)] messages_differ)
  from 1 2 3 show ?thesis
    by (simp add: income_short_def balance_short_def cash_flow_short_def)
qed

theorem insufficient_data_iff_witness:
  "fst (get_financials example_client (answers [ok (periods 2), ok (periods 5), ok (periods 5)])
     ''xyz'' 5 ([], 0)) =
     Inl (Exception ''Not enough data found in the income statement for ticker symbol xyz.'') \<and>
   falls_short 5 (periods 2, None) \<and>
   fst (get_financials example_client (answers [ok (periods 3), ok (periods 2), ok (periods 3)])
     ''msft'' 3 ([], 0)) =
     Inl (Exception ''Not enough data found in the balance sheet for ticker symbol msft.'') \<and>
   fst (get_financials example_client (answers [ok (periods 3), ok (periods 3), ok (periods 2)])
     ''msft'' 3 ([], 0)) =
     Inl (Exception ''Not enough data found in the cash flow statement for ticker symbol msft.'') \<and>
   passes 3 (periods 3, None) \<and> falls_short 3 (periods 2, None)"
  using insufficient_data_iff [OF runs_255, of 5] insufficient_data_iff [OF runs_323, of 3]
    insufficient_data_iff [OF runs_332, of 3]
  by (simp add: after_return_simps passes_def falls_short_def financials_length_periods)

text \<open>
  The exception is also raised when the first statement fetched has enough data: with
  \<open>m = 3\<close>, an income statement of three periods and a balance sheet of two, the call
  raises the exception for the balance sheet, although the income statement, the first
  statement whose fetch succeeds, does not fall short.
\<close>

theorem insufficient_data_first_fetched_counterexample:
  "fst (get_financials example_client (answers [ok (periods 3), ok (periods 2), ok (periods 3)])
     ''msft'' 3 ([], 0)) =
     Inl (Exception ''Not enough data found in the balance sheet for ticker symbol msft.'') \<and>
   fst (get_income_statement example_client
     (answers [ok (periods 3), ok (periods 2), ok (periods 3)]) ''msft'' ([], 0)) =
     Inr (periods 3, None) \<and>
   financials_length (periods 3) = Some 3 \<and>
   \<not> falls_short 3 (periods 3, None)"
  by (simp add: scenario balance_short_def)

section \<open>\<^verbatim>\<open>_call_api\<close> returns its errors\<close>




section \<open>Repeated calls\<close>

lemma deterministic_any_state:
  assumes "deterministic tr"
  shows "fst (get_quotes c tr s n) = fst (get_quotes c tr s n')"
    and "fst (get_financials c tr s m n) = fst (get_financials c tr s m n')"
proof -
  obtain l w l' w' where n: "n = (l, w)" "n' = (l', w')"
    by (cases n, cases n') auto
  define answer where "answer url = fst (tr w url)" for url
  have same: "fst (tr a url) = answer url" for a url
    using assms by (auto simp: deterministic_def answer_def)
  show "fst (get_quotes c tr s n) = fst (get_quotes c tr s n')"
    by (simp add: n get_quotes_run same)
  show "fst (get_financials c tr s m n) = fst (get_financials c tr s m n')"
    by (simp add: n get_financials_result Let_def same cong: sum.case_cong)
qed

text \<open>
  C7: against a deterministic transport, the result of \<^verbatim>\<open>get_quotes\<close> and of
  \<^verbatim>\<open>get_financials\<close> on the same client and arguments does not depend on the state of the
  network: a second call, made in the state the first call left, gives the result of the
  first, and so do calls made in any two states.
\<close>

theorem repeated_call_same_result:
  assumes "deterministic tr"
  shows "fst (get_quotes c tr s (snd (get_quotes c tr s n))) = fst (get_quotes c tr s n) \<and>
         fst (get_financials c tr s m (snd (get_financials c tr s m n))) =
           fst (get_financials c tr s m n) \<and>
         fst (get_quotes c tr s n') = fst (get_quotes c tr s n) \<and>
         fst (get_financials c tr s m n') = fst (get_financials c tr s m n)"
  using deterministic_any_state [OF assms] by blast

theorem repeated_call_same_result_witness:
  "deterministic steady \<and>
   fst (get_financials example_client steady ''msft'' 3
     (snd (get_financials example_client steady ''msft'' 3 ([], 0)))) =
     fst (get_financials example_client steady ''msft'' 3 ([], 0)) \<and>
   fst (get_financials example_client steady ''msft'' 3 ([], 0)) =
     Inr [''income_statement'' \<mapsto> periods 3, ''balance_sheet'' \<mapsto> periods 3,
          ''cash_flow_statement'' \<mapsto> periods 3] \<and>
   fst (get_quotes example_client steady ''msft''
     (snd (get_quotes example_client steady ''msft'' ([], 0)))) =
     fst (get_quotes example_client steady ''msft'' ([], 0))"
  using repeated_call_same_result [OF deterministic_steady, of example_client "''msft''"
      "([], 0)" 3 "([], 0)"]
  by (simp add: deterministic_steady scenario steady_def)

section \<open>A minimum of zero\<close>

text \<open>
  C8: with \<^verbatim>\<open>minimum_years = 0\<close>, when the three fetches give no error and each bundle has a
  \<^verbatim>\<open>"financials"\<close> value with a length, every minimum-years test returns true and
  \<^verbatim>\<open>get_financials\<close> returns the three bundles: it raises no not-enough-data exception, and
  no other.
\<close>

theorem get_financials_zero_minimum:
  assumes "get_income_statement c tr s n0 = (Inr (d1, None), n1)"
      and "get_balance_sheet c tr s n1 = (Inr (d2, None), n2)"
      and "get_cash_flow_statement c tr s n2 = (Inr (d3, None), n3)"
      and "financials_length d1 = Some k1"
      and "financials_length d2 = Some k2"
      and "financials_length d3 = Some k3"
  shows "has_more_than_minimum 0 d1 = Inr True \<and>
         has_more_than_minimum 0 d2 = Inr True \<and>
         has_more_than_minimum 0 d3 = Inr True \<and>
         get_financials c tr s 0 n0 =
           (Inr [''income_statement'' \<mapsto> d1, ''balance_sheet'' \<mapsto> d2,
                 ''cash_flow_statement'' \<mapsto> d3], n3)"
  using assms(4-6)
  by (simp add: get_financials_from_runs [OF assms(1-3)] judged_def verdict_no_error
        passes_def has_more_than_minimum_iff)

theorem get_financials_zero_minimum_witness:
  "get_financials example_client (answers [ok (periods 0), ok (periods 0), ok (periods 1)])
     ''msft'' 0 ([], 0) =
     (Inr [''income_statement'' \<mapsto> periods 0, ''balance_sheet'' \<mapsto> periods 0,
           ''cash_flow_statement'' \<mapsto> periods 1],
      ([income_statement_url example_client ''msft'', balance_sheet_url example_client ''msft'',
        cash_flow_statement_url example_client ''msft''], Suc (Suc (Suc 0)))) \<and>
   has_more_than_minimum 0 (periods 0) = Inr True"
proof -
  let ?T = "answers [ok (periods 0), ok (periods 0), ok (periods 1)]"
  have a: "get_income_statement example_client ?T ''msft'' ([], 0) =
      (Inr (periods 0, None), ([income_statement_url example_client ''msft''], Suc 0))"
    by (simp add: scenario)
  have b: "get_balance_sheet example_client ?T ''msft''
        ([income_statement_url example_client ''msft''], Suc 0) =
      (Inr (periods 0, None),
       ([income_statement_url example_client ''msft'',
         balance_sheet_url example_client ''msft''], Suc (Suc 0)))"
    by (simp add: scenario)
  have c: "get_cash_flow_statement example_client ?T ''msft''
        ([income_statement_url example_client ''msft'',
          balance_sheet_url example_client ''msft''], Suc (Suc 0)) =
      (Inr (periods 1, None),
       ([income_statement_url example_client ''msft'', balance_sheet_url example_client ''msft'',
         cash_flow_statement_url example_client ''msft''], Suc (Suc (Suc 0))))"
    by (simp add: scenario)
  show ?thesis
    using get_financials_zero_minimum [OF a b c financials_length_periods
        financials_length_periods financials_length_periods]
    by simp
qed

section \<open>The unguarded subscript\<close>

text \<open>
  C9: when the income statement is fetched without error and the parsed body is not a
  mapping, \<^verbatim>\<open>get_financials\<close> raises \<^verbatim>\<open>TypeError\<close>; when it is a mapping without the key
  \<^verbatim>\<open>"financials"\<close>, \<^verbatim>\<open>get_financials\<close> raises \<^verbatim>\<open>KeyError\<close>. Neither is the plain
  \<^verbatim>\<open>Exception\<close> of a failed fetch or of not enough data, and nothing is requested after the
  income statement.
\<close>

theorem get_financials_unguarded_subscript:
  assumes "get_income_statement c tr s n0 = (Inr (d, None), n1)"
  shows "((\<forall>kvs. d \<noteq> JObj kvs) \<longrightarrow> get_financials c tr s m n0 = (Inl TypeError, n1)) \<and>
         (\<forall>kvs. d = JObj kvs \<longrightarrow> ''financials'' \<notin> fst ` set kvs \<longrightarrow>
            get_financials c tr s m n0 = (Inl (KeyError ''financials''), n1))"
proof -
  obtain r2 n2 where b: "get_balance_sheet c tr s n1 = (r2, n2)"
    by (cases "get_balance_sheet c tr s n1") blast
  obtain r3 n3 where c: "get_cash_flow_statement c tr s n2 = (r3, n3)"
    by (cases "get_cash_flow_statement c tr s n2") blast
  note run = get_financials_from_runs [OF assms b c, of m]
  have "has_more_than_minimum m d = Inl TypeError" if "\<forall>kvs. d \<noteq> JObj kvs"
    using that by (cases d) (simp_all add: has_more_than_minimum_def)
  moreover have "has_more_than_minimum m (JObj kvs) = Inl (KeyError ''financials'')"
    if "''financials'' \<notin> fst ` set kvs" for kvs
    using that by (simp add: has_more_than_minimum_def map_of_eq_None_iff [THEN iffD2])
  ultimately show ?thesis
    unfolding run by (auto simp: judged_def verdict_def)
qed

theorem get_financials_unguarded_subscript_witness:
  "get_financials example_client (answers [ok (JObj [(''symbol'', JStr ''XYZ'')])])
     ''xyz'' 5 ([], 0) =
     (Inl (KeyError ''financials''), ([income_statement_url example_client ''xyz''], Suc 0)) \<and>
   get_financials example_client (answers [ok (JArr [])]) ''xyz'' 5 ([], 0) =
     (Inl TypeError, ([income_statement_url example_client ''xyz''], Suc 0))"
proof -
  have a: "get_income_statement example_client (answers [ok (JObj [(''symbol'', JStr ''XYZ'')])])
      ''xyz'' ([], 0) =
      (Inr (JObj [(''symbol'', JStr ''XYZ'')], None),
       ([income_statement_url example_client ''xyz''], Suc 0))"
    by (simp add: scenario)
  have b: "get_income_statement example_client (answers [ok (JArr [])]) ''xyz'' ([], 0) =
      (Inr (JArr [], None), ([income_statement_url example_client ''xyz''], Suc 0))"
    by (simp add: scenario)
  show ?thesis
    using get_financials_unguarded_subscript [OF a, of 5]
      get_financials_unguarded_subscript [OF b, of 5]
    by simp
qed

section \<open>The case of the symbol\<close>

lemma echo_equivI:
  "echo_equiv s s' (Inl (Exception (pre @ s @ post))) (Inl (Exception (pre @ s' @ post)))"
  by (auto simp: echo_equiv_def)

lemma echo_equivI_end:
  "echo_equiv s s' (Inl (Exception (pre @ s))) (Inl (Exception (pre @ s')))"
  using echo_equivI [of s s' pre "[]"] by simp

lemma echo_equiv_refl: "echo_equiv s s' r r"
  by (simp add: echo_equiv_def)

lemma echo_messages:
  "echo_equiv s s' (Inl (Exception (quote_failed s))) (Inl (Exception (quote_failed s')))"
  "echo_equiv s s' (Inl (Exception (income_failed s))) (Inl (Exception (income_failed s')))"
  "echo_equiv s s' (Inl (Exception (income_short s))) (Inl (Exception (income_short s')))"
  "echo_equiv s s' (Inl (Exception (balance_failed s))) (Inl (Exception (balance_failed s')))"
  "echo_equiv s s' (Inl (Exception (balance_short s))) (Inl (Exception (balance_short s')))"
  "echo_equiv s s' (Inl (Exception (cash_flow_failed s)))
     (Inl (Exception (cash_flow_failed s')))"
  "echo_equiv s s' (Inl (Exception (cash_flow_short s))) (Inl (Exception (cash_flow_short s')))"
  unfolding quote_failed_def income_failed_def income_short_def balance_failed_def
    balance_short_def cash_flow_failed_def cash_flow_short_def
  by (rule echo_equivI echo_equivI_end)+

lemma judged_echo:
  fixes s s' :: string and r :: "pyexc + json \<times> pyexc option"
  assumes "well_formed r"
    and "echo_equiv s s' (Inl (Exception failed) :: pyexc + 'a) (Inl (Exception failed'))"
    and "echo_equiv s s' (Inl (Exception short) :: pyexc + 'a) (Inl (Exception short'))"
  shows "(\<exists>d. judged failed short m r = Inr d \<and> judged failed' short' m r = Inr d) \<or>
         (\<exists>e e'. judged failed short m r = Inl e \<and> judged failed' short' m r = Inl e' \<and>
            echo_equiv s s' (Inl e :: pyexc + 'a) (Inl e'))"
proof (cases r)
  case (Inl e)
  then show ?thesis by (simp add: judged_def echo_equiv_refl)
next
  case (Inr p)
  obtain d err where p: "p = (d, err)" by (cases p)
  show ?thesis
  proof (cases err)
    case None
    then show ?thesis
      using assms(3) by (simp add: Inr p judged_def verdict_no_error echo_equiv_refl)
  next
    case (Some e)
    with assms(1) have "d = JNull" by (simp add: Inr p well_formed_def)
    then show ?thesis
      using assms(2) by (simp add: Inr p Some judged_def verdict_error echo_equiv_refl)
  qed
qed

text \<open>
  C10, as amended: for both public methods, a call with \<open>s\<close> and a call with
  \<^verbatim>\<open>s.upper()\<close> build the same request URLs, leave the network in the same state (the same
  requests were made), and give results that agree apart from the original-casing symbol
  echoed in the message of a raised exception.
\<close>

theorem symbol_case_insensitive:
  "quote_url c (upper s) = quote_url c s \<and>
   income_statement_url c (upper s) = income_statement_url c s \<and>
   balance_sheet_url c (upper s) = balance_sheet_url c s \<and>
   cash_flow_statement_url c (upper s) = cash_flow_statement_url c s \<and>
   snd (get_quotes c tr (upper s) n) = snd (get_quotes c tr s n) \<and>
   echo_equiv s (upper s) (fst (get_quotes c tr s n)) (fst (get_quotes c tr (upper s) n)) \<and>
   snd (get_financials c tr (upper s) m n) = snd (get_financials c tr s m n) \<and>
   echo_equiv s (upper s) (fst (get_financials c tr s m n))
     (fst (get_financials c tr (upper s) m n))"
proof -
  obtain l w where n: "n = (l, w)" by (cases n)
  define t1 where "t1 = tr w (income_statement_url c s)"
  define t2 where "t2 = tr (snd t1) (balance_sheet_url c s)"
  define t3 where "t3 = tr (snd t2) (cash_flow_statement_url c s)"
  define a1 where "a1 = judged (income_failed s) (income_short s) m (fetched (fst t1))"
  define a2 where "a2 = judged (balance_failed s) (balance_short s) m (fetched (fst t2))"
  define a3 where "a3 = judged (cash_flow_failed s) (cash_flow_short s) m (fetched (fst t3))"
  define b1 where
    "b1 = judged (income_failed (upper s)) (income_short (upper s)) m (fetched (fst t1))"
  define b2 where
    "b2 = judged (balance_failed (upper s)) (balance_short (upper s)) m (fetched (fst t2))"
  define b3 where
    "b3 = judged (cash_flow_failed (upper s)) (cash_flow_short (upper s)) m
       (fetched (fst t3))"
  note defs = t1_def t2_def t3_def a1_def a2_def a3_def b1_def b2_def b3_def
  have q1: "snd (get_quotes c tr (upper s) n) = snd (get_quotes c tr s n)"
    by (simp add: n get_quotes_run urls_upper)
  have q2: "echo_equiv s (upper s) (fst (get_quotes c tr s n))
      (fst (get_quotes c tr (upper s) n))"
    by (simp add: n get_quotes_run urls_upper echo_messages echo_equiv_refl split: sum.splits)
  have low: "get_financials c tr s m n =
      (case a1 of
         Inl e \<Rightarrow> (Inl e, (l @ [income_statement_url c s], snd t1))
       | Inr d1 \<Rightarrow>
          (case a2 of
             Inl e \<Rightarrow> (Inl e, (l @ [income_statement_url c s, balance_sheet_url c s], snd t2))
           | Inr d2 \<Rightarrow>
              (case a3 of
                 Inl e \<Rightarrow> (Inl e, (l @ [income_statement_url c s, balance_sheet_url c s,
                   cash_flow_statement_url c s], snd t3))
               | Inr d3 \<Rightarrow>
                  (Inr [''income_statement'' \<mapsto> d1, ''balance_sheet'' \<mapsto> d2,
                        ''cash_flow_statement'' \<mapsto> d3],
                   (l @ [income_statement_url c s, balance_sheet_url c s,
                     cash_flow_statement_url c s], snd t3)))))"
    unfolding n get_financials_run Let_def defs by (rule refl)
  have up: "get_financials c tr (upper s) m n =
      (case b1 of
         Inl e \<Rightarrow> (Inl e, (l @ [income_statement_url c s], snd t1))
       | Inr d1 \<Rightarrow>
          (case b2 of
             Inl e \<Rightarrow> (Inl e, (l @ [income_statement_url c s, balance_sheet_url c s], snd t2))
           | Inr d2 \<Rightarrow>
              (case b3 of
                 Inl e \<Rightarrow> (Inl e, (l @ [income_statement_url c s, balance_sheet_url c s,
                   cash_flow_statement_url c s], snd t3))
               | Inr d3 \<Rightarrow>
                  (Inr [''income_statement'' \<mapsto> d1, ''balance_sheet'' \<mapsto> d2,
                        ''cash_flow_statement'' \<mapsto> d3],
                   (l @ [income_statement_url c s, balance_sheet_url c s,
                     cash_flow_statement_url c s], snd t3)))))"
    unfolding n get_financials_run Let_def defs urls_upper by (rule refl)
  have e1: "(\<exists>d. a1 = Inr d \<and> b1 = Inr d) \<or>
      (\<exists>e e'. a1 = Inl e \<and> b1 = Inl e' \<and>
         echo_equiv s (upper s) (Inl e :: pyexc + (string \<rightharpoonup> json)) (Inl e'))"
    unfolding a1_def b1_def
    by (rule judged_echo [OF fetched_well_formed echo_messages(2) echo_messages(3)])
  have e2: "(\<exists>d. a2 = Inr d \<and> b2 = Inr d) \<or>
      (\<exists>e e'. a2 = Inl e \<and> b2 = Inl e' \<and>
         echo_equiv s (upper s) (Inl e :: pyexc + (string \<rightharpoonup> json)) (Inl e'))"
    unfolding a2_def b2_def
    by (rule judged_echo [OF fetched_well_formed echo_messages(4) echo_messages(5)])
  have e3: "(\<exists>d. a3 = Inr d \<and> b3 = Inr d) \<or>
      (\<exists>e e'. a3 = Inl e \<and> b3 = Inl e' \<and>
         echo_equiv s (upper s) (Inl e :: pyexc + (string \<rightharpoonup> json)) (Inl e'))"
    unfolding a3_def b3_def
    by (rule judged_echo [OF fetched_well_formed echo_messages(6) echo_messages(7)])
  have f1: "snd (get_financials c tr (upper s) m n) = snd (get_financials c tr s m n)"
    using e1 e2 e3 unfolding low up by (auto split: sum.splits)
  have f2: "echo_equiv s (upper s) (fst (get_financials c tr s m n))
      (fst (get_financials c tr (upper s) m n))"
    using e1 e2 e3 unfolding low up by (auto simp: echo_equiv_refl split: sum.splits)
  from q1 q2 f1 f2 show ?thesis
    by (simp add: urls_upper)
qed

theorem symbol_case_insensitive_witness:
  "snd (get_quotes example_client (answers []) (upper ''aapl'') ([], 0)) =
     snd (get_quotes example_client (answers []) ''aapl'' ([], 0)) \<and>
   echo_equiv ''aapl'' (upper ''aapl'')
     (fst (get_quotes example_client (answers []) ''aapl'' ([], 0)))
     (fst (get_quotes example_client (answers []) (upper ''aapl'') ([], 0)))"
  using symbol_case_insensitive [of example_client "''aapl''" "answers []" "([], 0)" 0]
  by simp

text \<open>
  Without that exception the claim fails for \<^verbatim>\<open>get_quotes\<close> too: when the fetch fails,
  the message echoes \<^verbatim>\<open>aapl\<close> in one call and \<^verbatim>\<open>AAPL\<close> in the other.
\<close>

theorem symbol_case_quotes_counterexample:
  "fst (get_quotes example_client (answers []) ''aapl'' ([], 0)) =
     Inl (Exception ''Failed to fetch quote data for ticker symbol aapl.'') \<and>
   fst (get_quotes example_client (answers []) (upper ''aapl'') ([], 0)) =
     Inl (Exception ''Failed to fetch quote data for ticker symbol AAPL.'') \<and>
   fst (get_quotes example_client (answers []) ''aapl'' ([], 0)) \<noteq>
     fst (get_quotes example_client (answers []) (upper ''aapl'') ([], 0))"
  by (simp add: scenario quote_failed_def upper_example)

end
